theory Spec2Isabelle
  imports Complex_Main "HOL-Library.Sublist" "HOL-Library.Product_Lexorder" "HOL-Library.Option_ord"
begin

section \<open>JavaScript strings\<close>

text \<open>
  The server exists in two variants with the same function names: the main server
  (\<^verbatim>\<open>src/unnamed/part_000\<close>) and the serverless variant written for Vercel
  (\<^verbatim>\<open>src/unnamed/part_001\<close>). Definitions without a suffix embed the main server;
  definitions ending in \<open>_vercel\<close> embed the serverless variant wherever it differs.

  A JavaScript string is modelled as a \<^typ>\<open>string\<close>, its characters restricted to
  Latin-1; the empty string is the only falsy string. A value that may be \<^verbatim>\<open>undefined\<close>
  or \<^verbatim>\<open>null\<close> is an \<^typ>\<open>'a option\<close>. A header or query value is a string or absent.
  An exception is a value of type \<open>error\<close>, and a function that may raise returns a sum.
\<close>

datatype error = TypeError | LookupError | NetworkError | MongoError

definition is_digit :: "char \<Rightarrow> bool" where
  \<comment> \<open>the class \<^verbatim>\<open>\d\<close>\<close>
  "is_digit c = (c \<in> set ''0123456789'')"

definition is_hex :: "char \<Rightarrow> bool" where
  \<comment> \<open>the class \<^verbatim>\<open>[0-9a-fA-F]\<close>\<close>
  "is_hex c = (c \<in> set ''0123456789abcdefABCDEF'')"

definition is_space :: "char \<Rightarrow> bool" where
  \<comment> \<open>white space and line terminators removed by \<^verbatim>\<open>trim\<close>: TAB, LF, VT, FF, CR, SP, NBSP\<close>
  "is_space c = (c \<in> set [CHR 0x09, CHR 0x0A, CHR 0x0B, CHR 0x0C, CHR 0x0D, CHR 0x20, CHR 0xA0])"

definition trim :: "string \<Rightarrow> string" where
  "trim s = rev (dropWhile is_space (rev (dropWhile is_space s)))"

fun split_js :: "char \<Rightarrow> string \<Rightarrow> string list" where
  \<comment> \<open>\<^verbatim>\<open>s.split(sep)\<close> for a one-character separator; \<^verbatim>\<open>''.split(',')\<close> is \<^verbatim>\<open>['']\<close>\<close>
  "split_js sep [] = [[]]"
| "split_js sep (c # cs) =
     (if c = sep then [] # split_js sep cs
      else (case split_js sep cs of
              [] \<Rightarrow> [[c]]
            | p # ps \<Rightarrow> (c # p) # ps))"

fun includes_js :: "string \<Rightarrow> string \<Rightarrow> bool" where
  \<comment> \<open>\<^verbatim>\<open>s.includes(sub)\<close>\<close>
  "includes_js [] sub = (sub = [])"
| "includes_js (c # cs) sub = (prefix sub (c # cs) \<or> includes_js cs sub)"

definition to_lower :: "char \<Rightarrow> char" where
  \<comment> \<open>\<^verbatim>\<open>toLowerCase\<close> on one Latin-1 character\<close>
  "to_lower c =
     (let n = (of_char c :: nat)
      in if (65 \<le> n \<and> n \<le> 90) \<or> (192 \<le> n \<and> n \<le> 222 \<and> n \<noteq> 215)
         then char_of (n + 32) else c)"

definition toLowerCase :: "string \<Rightarrow> string" where
  "toLowerCase s = map to_lower s"

definition replace_mapped :: "string \<Rightarrow> string" where
  \<comment> \<open>\<^verbatim>\<open>ip.replace(/^::ffff:/, '')\<close>\<close>
  "replace_mapped s = (if prefix ''::ffff:'' s then drop 7 s else s)"

section \<open>Public-IP validator\<close>

text \<open>
  The regular expressions of \<^verbatim>\<open>isValidPublicIP\<close>. In both format expressions the
  separator is outside the character class of the groups, so a string matches exactly when
  splitting at the separator gives the required number of groups, each of the required
  length and class.
\<close>

definition ipv4Regex :: "string \<Rightarrow> bool" where
  \<comment> \<open>\<^verbatim>\<open>/^(\d{1,3}\.){3}\d{1,3}$/\<close>\<close>
  "ipv4Regex s =
     (let parts = split_js CHR ''.'' s
      in length parts = 4 \<and>
         list_all (\<lambda>p. 1 \<le> length p \<and> length p \<le> 3 \<and> list_all is_digit p) parts)"

definition ipv6Regex :: "string \<Rightarrow> bool" where
  \<comment> \<open>\<^verbatim>\<open>/^([0-9a-fA-F]{1,4}:){7}[0-9a-fA-F]{1,4}$/\<close>\<close>
  "ipv6Regex s =
     (let parts = split_js CHR '':'' s
      in length parts = 8 \<and>
         list_all (\<lambda>p. 1 \<le> length p \<and> length p \<le> 4 \<and> list_all is_hex p) parts)"

definition classB :: "string list" where
  \<comment> \<open>the alternatives of \<^verbatim>\<open>(1[6-9]|2[0-9]|3[21])\<close> in the main server\<close>
  "classB = [''16'', ''17'', ''18'', ''19'']
          @ map (\<lambda>d. [CHR ''2'', d]) ''0123456789''
          @ [''32'', ''31'']"

definition classB_vercel :: "string list" where
  \<comment> \<open>the alternatives of \<^verbatim>\<open>(1[6-9]|2[0-9]|3[01])\<close> in the serverless variant\<close>
  "classB_vercel = [''16'', ''17'', ''18'', ''19'']
          @ map (\<lambda>d. [CHR ''2'', d]) ''0123456789''
          @ [''30'', ''31'']"

definition range172 :: "string list \<Rightarrow> string \<Rightarrow> bool" where
  \<comment> \<open>\<^verbatim>\<open>/^172\.(...)\./\<close> with the given alternatives\<close>
  "range172 alts s = list_ex (\<lambda>n. prefix (''172.'' @ n @ ''.'') s) alts"

definition privateRanges :: "(string \<Rightarrow> bool) list" where
  "privateRanges =
     [prefix ''127.'',
      prefix ''10.'',
      range172 classB,
      prefix ''192.168.'',
      prefix ''169.254.'',
      (\<lambda>s. s = ''::1''),
      prefix ''fe80:'',
      prefix ''fc00:'',
      prefix ''fd00:'']"

definition privateRanges_vercel :: "(string \<Rightarrow> bool) list" where
  "privateRanges_vercel =
     [prefix ''127.'',
      prefix ''10.'',
      range172 classB_vercel,
      prefix ''192.168.'',
      prefix ''169.254.'',
      (\<lambda>s. s = ''::1''),
      prefix ''fe80:'',
      prefix ''fc00:'',
      prefix ''fd00:'']"

definition isValidPublicIP :: "string \<Rightarrow> bool" where
  "isValidPublicIP ip =
     (if ip = [] then False
      else let cleanIP = replace_mapped ip
           in if \<not> ipv4Regex cleanIP \<and> \<not> ipv6Regex cleanIP then False
              else if list_ex (\<lambda>range. range cleanIP) privateRanges then False
              else True)"

definition isValidPublicIP_vercel :: "string \<Rightarrow> bool" where
  "isValidPublicIP_vercel ip =
     (if ip = [] then False
      else let cleanIP = replace_mapped ip
           in if \<not> ipv4Regex cleanIP then False
              else \<not> list_ex (\<lambda>range. range cleanIP) privateRanges_vercel)"

section \<open>Client-IP resolver\<close>

record request =
  req_ip :: "string option"
  req_headers :: "string \<rightharpoonup> string"
  connection_remoteAddress :: "string option"
  socket_remoteAddress :: "string option"
  connection_socket_remoteAddress :: "string option"
  query_limit :: "string option"
  query_filter :: "string option"
  body_sessionId :: "string option"

definition proxyHeaders :: "string list" where
  "proxyHeaders =
     [''cf-connecting-ip'', ''cf-pseudo-ipv4'', ''x-forwarded-for'', ''x-real-ip'',
      ''x-client-ip'', ''x-forwarded'', ''x-cluster-client-ip'', ''forwarded-for'',
      ''forwarded'', ''true-client-ip'', ''x-original-forwarded-for'',
      ''x-appengine-remote-addr'', ''x-azure-clientip'', ''x-azure-socketip'']"

definition vercelHeaders :: "string list" where
  "vercelHeaders = [''x-forwarded-for'', ''x-real-ip'', ''cf-connecting-ip'', ''x-vercel-forwarded-for'']"

definition array_trim :: "string list \<Rightarrow> error + string" where
  \<comment> \<open>\<^verbatim>\<open>value.split(',').trim()\<close>: \<^verbatim>\<open>split\<close> returns an Array, an Array has no
      method \<^verbatim>\<open>trim\<close>, and calling \<^verbatim>\<open>undefined\<close> raises a TypeError\<close>
  "array_trim parts = Inl TypeError"

definition first_trim :: "string list \<Rightarrow> string" where
  \<comment> \<open>\<^verbatim>\<open>value.split(',')[0].trim()\<close>; \<^verbatim>\<open>split\<close> never returns an empty Array\<close>
  "first_trim parts = (case parts of [] \<Rightarrow> [] | p # _ \<Rightarrow> trim p)"

fun scan_proxyHeaders :: "(string \<rightharpoonup> string) \<Rightarrow> string list \<Rightarrow> error + string option" where
  \<comment> \<open>Method 2 of the main server: the loop over \<^verbatim>\<open>proxyHeaders\<close>\<close>
  "scan_proxyHeaders hs [] = Inr None"
| "scan_proxyHeaders hs (header # rest) =
     (case hs header of
        None \<Rightarrow> scan_proxyHeaders hs rest
      | Some v \<Rightarrow>
          if v = [] then scan_proxyHeaders hs rest
          else (case array_trim (split_js CHR '','' v) of
                  Inl e \<Rightarrow> Inl e
                | Inr a \<Rightarrow> if isValidPublicIP a then Inr (Some a)
                           else scan_proxyHeaders hs rest))"

fun scan_connectionIPs :: "string option list \<Rightarrow> string option" where
  \<comment> \<open>Method 3 of the main server: the loop over \<^verbatim>\<open>connectionIPs\<close>\<close>
  "scan_connectionIPs [] = None"
| "scan_connectionIPs (None # rest) = scan_connectionIPs rest"
| "scan_connectionIPs (Some a # rest) =
     (if a \<noteq> [] \<and> isValidPublicIP a then Some (replace_mapped a)
      else scan_connectionIPs rest)"

definition method1 :: "request \<Rightarrow> string option" where
  \<comment> \<open>Method 1 of the main server: \<^verbatim>\<open>req.ip\<close>, the address Express derives from the transport\<close>
  "method1 req =
     (case req_ip req of
        None \<Rightarrow> None
      | Some a \<Rightarrow>
          if a \<noteq> [] \<and> a \<noteq> ''::1'' \<and> a \<noteq> ''127.0.0.1'' \<and> \<not> prefix ''::ffff:127.0.0.1'' a
          then Some (replace_mapped a) else None)"

definition header_fallback :: "request \<Rightarrow> error + string" where
  \<comment> \<open>Methods 2 to 4 of the main server: the header scan, then the connection addresses,
      then \<^verbatim>\<open>'unknown'\<close>\<close>
  "header_fallback req =
     (case scan_proxyHeaders (req_headers req) proxyHeaders of
        Inl e \<Rightarrow> Inl e
      | Inr (Some a) \<Rightarrow> Inr a
      | Inr None \<Rightarrow>
          (case scan_connectionIPs
                  [connection_remoteAddress req, socket_remoteAddress req,
                   connection_socket_remoteAddress req] of
             Some a \<Rightarrow> Inr a
           | None \<Rightarrow> Inr ''unknown''))"

definition getRealIP :: "request \<Rightarrow> error + string" where
  "getRealIP req =
     (case method1 req of
        Some a \<Rightarrow> Inr a
      | None \<Rightarrow> header_fallback req)"

fun scan_vercelHeaders :: "(string \<rightharpoonup> string) \<Rightarrow> string list \<Rightarrow> string option" where
  "scan_vercelHeaders hs [] = None"
| "scan_vercelHeaders hs (header # rest) =
     (case hs header of
        None \<Rightarrow> scan_vercelHeaders hs rest
      | Some v \<Rightarrow>
          if v = [] then scan_vercelHeaders hs rest
          else (let a = first_trim (split_js CHR '','' v)
                in if isValidPublicIP_vercel a then Some a
                   else scan_vercelHeaders hs rest))"

definition getRealIP_vercel :: "request \<Rightarrow> string" where
  "getRealIP_vercel req =
     (case scan_vercelHeaders (req_headers req) vercelHeaders of
        Some a \<Rightarrow> a
      | None \<Rightarrow>
          (case req_ip req of
             None \<Rightarrow> ''unknown''
           | Some a \<Rightarrow> if a \<noteq> [] \<and> isValidPublicIP_vercel a then replace_mapped a
                       else ''unknown''))"

section \<open>Geo lookup and VPN/proxy classifier\<close>

text \<open>
  What the process reaches outside itself is passed in: the set of Tor exit nodes loaded at
  start, the offline geo database (\<^verbatim>\<open>geoip.lookup\<close>: \<open>Inr None\<close> for a miss, \<open>Inl\<close> when
  the library raises), the reputation service (its numeric \<^verbatim>\<open>result\<close> when the reply has
  one, \<open>Inl\<close> when the call fails), and the replies of the IP echo services in the order
  they are asked. Confidence values are only compared and copied (\<^verbatim>\<open>Math.max\<close>,
  \<^verbatim>\<open>Math.min\<close> and comparison with a literal), so they are modelled as rationals.
\<close>

record geo =
  geo_country :: "string option"
  geo_region :: "string option"
  geo_city :: "string option"
  geo_timezone :: "string option"
  geo_ll :: "(rat \<times> rat) option"
  geo_org :: "string option"
  geo_as :: "string option"

datatype service_reply =
    Failed
  | JsonReply "string option" "string option"
  | TextReply string

record services =
  torExitNodes :: "string set"
  geoip_lookup :: "string \<Rightarrow> error + geo option"
  getipintel :: "string \<Rightarrow> error + rat option"
  external_ip :: "service_reply list"

definition or_unknown :: "string option \<Rightarrow> string" where
  \<comment> \<open>\<^verbatim>\<open>x || 'Unknown'\<close>\<close>
  "or_unknown x = (case x of None \<Rightarrow> ''Unknown'' | Some s \<Rightarrow> if s = [] then ''Unknown'' else s)"

datatype details =
    Details bool string string
  | Details_vercel bool string
  | ErrorDetails error
  | NoDetails

record vpn_state =
  isVPN :: bool
  vpnType :: string
  confidence :: rat
  detectionMethods :: "string list"

record verdict = vpn_state +
  details :: details

definition vpnIndicators :: "string list" where
  "vpnIndicators =
     [''amazon'', ''google'', ''microsoft'', ''digitalocean'', ''vultr'',
      ''linode'', ''ovh'', ''hetzner'', ''vpn'', ''proxy'', ''hosting'',
      ''server'', ''datacenter'', ''cloud'', ''virtual'', ''dedicated'']"

definition vpnIndicators_vercel :: "string list" where
  "vpnIndicators_vercel =
     [''amazon'', ''google'', ''microsoft'', ''digitalocean'', ''vultr'',
      ''linode'', ''ovh'', ''hetzner'', ''vpn'', ''proxy'', ''hosting'']"

definition initial_state :: vpn_state where
  "initial_state = \<lparr>isVPN = False, vpnType = ''none'', confidence = 0, detectionMethods = []\<rparr>"

definition check_tor :: "string set \<Rightarrow> string \<Rightarrow> vpn_state \<Rightarrow> vpn_state" where
  \<comment> \<open>Method 1: Tor exit nodes\<close>
  "check_tor nodes ip st =
     (if ip \<in> nodes
      then st\<lparr>isVPN := True, vpnType := ''tor'', confidence := 95 / 100,
              detectionMethods := detectionMethods st @ [''tor_exit_node'']\<rparr>
      else st)"

definition check_isp :: "string list \<Rightarrow> geo option \<Rightarrow> vpn_state \<Rightarrow> vpn_state" where
  \<comment> \<open>Method 2: the organisation name of the geo record against the indicator list\<close>
  "check_isp indicators g st =
     (case g of
        None \<Rightarrow> st
      | Some ge \<Rightarrow>
          (case geo_org ge of
             None \<Rightarrow> st
           | Some orgname \<Rightarrow>
               if orgname = [] then st
               else (let org = toLowerCase orgname
                     in case List.find (\<lambda>indicator. includes_js org indicator) indicators of
                          None \<Rightarrow> st
                        | Some foundIndicator \<Rightarrow>
                            st\<lparr>isVPN := True,
                               vpnType := (if includes_js foundIndicator ''vpn'' then ''vpn''
                                           else ''hosting/proxy''),
                               confidence := max (confidence st) (7 / 10),
                               detectionMethods := detectionMethods st @ [''isp_analysis'']\<rparr>)))"

definition check_getipintel :: "error + rat option \<Rightarrow> vpn_state \<Rightarrow> vpn_state" where
  \<comment> \<open>Method 3 (main server only): the reputation score; a failed call is swallowed\<close>
  "check_getipintel r st =
     (case r of
        Inl e \<Rightarrow> st
      | Inr None \<Rightarrow> st
      | Inr (Some score) \<Rightarrow>
          if score > 1 / 2
          then st\<lparr>isVPN := True,
                  vpnType := (if score > 8 / 10 then ''vpn'' else ''proxy''),
                  confidence := max (confidence st) score,
                  detectionMethods := detectionMethods st @ [''getipintel'']\<rparr>
          else st)"

definition tor_confidence :: "error + rat option \<Rightarrow> rat" where
  \<comment> \<open>the confidence the main server reports for a Tor exit node, by the reply of the
      reputation service: 0.95 unless the score is higher\<close>
  "tor_confidence r =
     (case r of
        Inl e \<Rightarrow> 95 / 100
      | Inr None \<Rightarrow> 95 / 100
      | Inr (Some score) \<Rightarrow> if 95 / 100 < score then min score 1 else 95 / 100)"

definition make_verdict :: "vpn_state \<Rightarrow> details \<Rightarrow> verdict" where
  "make_verdict st d =
     \<lparr>isVPN = isVPN st, vpnType = vpnType st, confidence = min (confidence st) 1,
      detectionMethods = detectionMethods st, details = d\<rparr>"

definition degraded :: "details \<Rightarrow> verdict" where
  \<comment> \<open>the verdict returned by the \<^verbatim>\<open>catch\<close> block\<close>
  "degraded d =
     \<lparr>isVPN = False, vpnType = ''unknown'', confidence = 0,
      detectionMethods = [''error''], details = d\<rparr>"

definition detectVPNProxy_try :: "services \<Rightarrow> string \<Rightarrow> error + verdict" where
  \<comment> \<open>the body of the \<^verbatim>\<open>try\<close> block of the main server\<close>
  "detectVPNProxy_try sv ip =
     (let st1 = check_tor (torExitNodes sv) ip initial_state
      in case geoip_lookup sv ip of
           Inl e \<Rightarrow> Inl e
         | Inr g \<Rightarrow>
             (let st2 = check_isp vpnIndicators g st1;
                  st3 = check_getipintel (getipintel sv ip) st2
              in Inr (make_verdict st3
                        (Details (ip \<in> torExitNodes sv)
                           (or_unknown (case g of None \<Rightarrow> None | Some ge \<Rightarrow> geo_org ge))
                           (or_unknown (case g of None \<Rightarrow> None | Some ge \<Rightarrow> geo_as ge))))))"

definition detectVPNProxy :: "services \<Rightarrow> string \<Rightarrow> error + verdict" where
  \<comment> \<open>\<open>Inr\<close>: the promise resolves with a verdict; \<open>Inl\<close>: it rejects\<close>
  "detectVPNProxy sv ip =
     (case detectVPNProxy_try sv ip of
        Inr v \<Rightarrow> Inr v
      | Inl e \<Rightarrow> Inr (degraded (ErrorDetails e)))"

definition detectVPNProxy_try_vercel :: "services \<Rightarrow> string \<Rightarrow> error + verdict" where
  "detectVPNProxy_try_vercel sv ip =
     (let st1 = check_tor (torExitNodes sv) ip initial_state
      in case geoip_lookup sv ip of
           Inl e \<Rightarrow> Inl e
         | Inr g \<Rightarrow>
             (let st2 = check_isp vpnIndicators_vercel g st1
              in Inr (make_verdict st2
                        (Details_vercel (ip \<in> torExitNodes sv)
                           (or_unknown (case g of None \<Rightarrow> None | Some ge \<Rightarrow> geo_org ge))))))"

definition detectVPNProxy_vercel :: "services \<Rightarrow> string \<Rightarrow> error + verdict" where
  "detectVPNProxy_vercel sv ip =
     (case detectVPNProxy_try_vercel sv ip of
        Inr v \<Rightarrow> Inr v
      | Inl e \<Rightarrow> Inr (degraded NoDetails))"

record location =
  country :: string
  region :: string
  city :: string
  timezone :: string
  lat :: rat
  lng :: rat
  isp :: string

definition getLocationInfo :: "services \<Rightarrow> string \<Rightarrow> error + location" where
  \<comment> \<open>the same record in both variants, up to the fields \<^verbatim>\<open>asn\<close> and \<^verbatim>\<open>mapUrl\<close> of the main
      server, which are left out\<close>
  "getLocationInfo sv ip =
     (case geoip_lookup sv ip of
        Inl e \<Rightarrow> Inl e
      | Inr None \<Rightarrow>
          Inr \<lparr>country = ''Unknown'', region = ''Unknown'', city = ''Unknown'',
               timezone = ''Unknown'', lat = 0, lng = 0, isp = ''Unknown''\<rparr>
      | Inr (Some ge) \<Rightarrow>
          Inr \<lparr>country = or_unknown (geo_country ge), region = or_unknown (geo_region ge),
               city = or_unknown (geo_city ge), timezone = or_unknown (geo_timezone ge),
               lat = (case geo_ll ge of None \<Rightarrow> 0 | Some ll \<Rightarrow> fst ll),
               lng = (case geo_ll ge of None \<Rightarrow> 0 | Some ll \<Rightarrow> snd ll),
               isp = or_unknown (geo_org ge)\<rparr>)"

fun getExternalIPInfo :: "service_reply list \<Rightarrow> string option" where
  \<comment> \<open>the loop over the echo services; a failing service is skipped\<close>
  "getExternalIPInfo [] = None"
| "getExternalIPInfo (Failed # rest) = getExternalIPInfo rest"
| "getExternalIPInfo (JsonReply ipf origin # rest) =
     (let a = (case ipf of
                 Some x \<Rightarrow> if x \<noteq> [] then Some x else origin
               | None \<Rightarrow> origin)
      in case a of
           None \<Rightarrow> getExternalIPInfo rest
         | Some x \<Rightarrow> if x \<noteq> [] \<and> isValidPublicIP x then Some x else getExternalIPInfo rest)"
| "getExternalIPInfo (TextReply s # rest) =
     (let x = trim s
      in if x \<noteq> [] \<and> isValidPublicIP x then Some x else getExternalIPInfo rest)"

section \<open>Visitor recorder\<close>

text \<open>
  A stored record. The session id is the one the client sent or, when it sent none, the
  clock reading. The fields \<^verbatim>\<open>browserInfo\<close>, \<^verbatim>\<open>rawHeaders\<close>, \<^verbatim>\<open>detectionMethod\<close> and
  \<^verbatim>\<open>environment\<close> are copies of request headers and constants; no query reads them and
  they are left out.
\<close>

datatype session = Supplied string | Generated int

record visitor =
  ipv4 :: string
  ipv6 :: "string option"
  location :: location
  vpnInfo :: verdict
  timestamp :: int
  sessionId :: session

text \<open>
  The document store and the connection state of the process: \<open>reachable\<close> says whether
  MongoDB accepts a connection or an operation now, \<open>connected\<close> whether the global handle
  \<^verbatim>\<open>db\<close> has been set by an earlier successful connect, \<open>visitors\<close> is the collection.
  Timestamps are milliseconds since the epoch.
\<close>

record world =
  reachable :: bool
  connected :: bool
  visitors :: "visitor list"

definition connectToDatabase :: "world \<Rightarrow> world" where
  \<comment> \<open>main server: a failed connect is logged and leaves \<^verbatim>\<open>db\<close> unset\<close>
  "connectToDatabase w =
     (if connected w then w
      else if reachable w then w\<lparr>connected := True\<rparr>
      else w)"

definition connectToDatabase_vercel :: "world \<Rightarrow> error + world" where
  \<comment> \<open>serverless variant: a failed connect is rethrown\<close>
  "connectToDatabase_vercel w =
     (if connected w then Inr w
      else if reachable w then Inr (w\<lparr>connected := True\<rparr>)
      else Inl MongoError)"

definition insertOne :: "visitor \<Rightarrow> world \<Rightarrow> error + world" where
  "insertOne v w =
     (if reachable w then Inr (w\<lparr>visitors := visitors w @ [v]\<rparr>) else Inl MongoError)"

record track_body =
  success :: bool
  detectedIP :: string
  location_text :: string
  vpnDetected :: bool

datatype 'a response = Ok200 'a | Error500

definition make_session :: "request \<Rightarrow> int \<Rightarrow> session" where
  \<comment> \<open>\<^verbatim>\<open>req.body.sessionId || Date.now().toString()\<close>\<close>
  "make_session req now =
     (case body_sessionId req of
        None \<Rightarrow> Generated now
      | Some s \<Rightarrow> if s = [] then Generated now else Supplied s)"

definition forwarded_ipv6 :: "request \<Rightarrow> string option" where
  \<comment> \<open>\<^verbatim>\<open>forwarded.split(',').find(ip => ip.includes(':'))?.trim() || null\<close>\<close>
  "forwarded_ipv6 req =
     (let forwarded = (case req_headers req ''x-forwarded-for'' of None \<Rightarrow> [] | Some v \<Rightarrow> v)
      in case List.find (\<lambda>a. includes_js a '':'') (split_js CHR '','' forwarded) of
           None \<Rightarrow> None
         | Some a \<Rightarrow> if trim a = [] then None else Some (trim a))"

definition final_ip :: "services \<Rightarrow> string \<Rightarrow> string" where
  \<comment> \<open>main server: the echo services are asked when the resolver found no public address\<close>
  "final_ip sv ip0 =
     (if ip0 = [] \<or> ip0 = ''unknown'' \<or> \<not> isValidPublicIP ip0
      then (case getExternalIPInfo (external_ip sv) of
              Some externalIP \<Rightarrow> externalIP
            | None \<Rightarrow> ''unknown'')
      else ip0)"

definition trackVisitor_try ::
  "services \<Rightarrow> int \<Rightarrow> request \<Rightarrow> world \<Rightarrow> error + track_body \<times> world" where
  \<comment> \<open>the body of the \<^verbatim>\<open>try\<close> block of the main server, after the connect\<close>
  "trackVisitor_try sv now req w =
     (case getRealIP req of
        Inl e \<Rightarrow> Inl e
      | Inr ip0 \<Rightarrow>
          (let ip = final_ip sv ip0
           in case getLocationInfo sv ip of
                Inl e \<Rightarrow> Inl e
              | Inr loc \<Rightarrow>
                  (case detectVPNProxy sv ip of
                     Inl e \<Rightarrow> Inl e
                   | Inr vpn \<Rightarrow>
                       (let visitorData =
                              \<lparr>ipv4 = ip, ipv6 = forwarded_ipv6 req, location = loc,
                               vpnInfo = vpn, timestamp = now,
                               sessionId = make_session req now\<rparr>;
                            body =
                              \<lparr>success = True, detectedIP = ip,
                               location_text = city loc @ '', '' @ country loc,
                               vpnDetected = isVPN vpn\<rparr>
                        in if connected w
                           then (case insertOne visitorData w of
                                   Inl e \<Rightarrow> Inl e
                                 | Inr w' \<Rightarrow> Inr (body, w'))
                           else Inr (body, w)))))"

definition trackVisitor ::
  "services \<Rightarrow> int \<Rightarrow> request \<Rightarrow> world \<Rightarrow> track_body response \<times> world" where
  \<comment> \<open>\<^verbatim>\<open>POST /api/track-visitor\<close>, main server\<close>
  "trackVisitor sv now req w0 =
     (let w = connectToDatabase w0
      in case trackVisitor_try sv now req w of
           Inl e \<Rightarrow> (Error500, w)
         | Inr (body, w') \<Rightarrow> (Ok200 body, w'))"

definition trackVisitor_try_vercel ::
  "services \<Rightarrow> int \<Rightarrow> request \<Rightarrow> world \<Rightarrow> error + track_body \<times> world" where
  "trackVisitor_try_vercel sv now req w0 =
     (case connectToDatabase_vercel w0 of
        Inl e \<Rightarrow> Inl e
      | Inr w \<Rightarrow>
          (let ip = getRealIP_vercel req
           in case getLocationInfo sv ip of
                Inl e \<Rightarrow> Inl e
              | Inr loc \<Rightarrow>
                  (case detectVPNProxy_vercel sv ip of
                     Inl e \<Rightarrow> Inl e
                   | Inr vpn \<Rightarrow>
                       (let visitorData =
                              \<lparr>ipv4 = ip, ipv6 = None, location = loc,
                               vpnInfo = vpn, timestamp = now,
                               sessionId = make_session req now\<rparr>
                        in case insertOne visitorData w of
                             Inl e \<Rightarrow> Inl e
                           | Inr w' \<Rightarrow>
                               Inr (\<lparr>success = True, detectedIP = ip,
                                     location_text = city loc @ '', '' @ country loc,
                                     vpnDetected = isVPN vpn\<rparr>, w')))))"

definition trackVisitor_vercel ::
  "services \<Rightarrow> int \<Rightarrow> request \<Rightarrow> world \<Rightarrow> track_body response \<times> world" where
  \<comment> \<open>\<^verbatim>\<open>POST /api/track-visitor\<close>, serverless variant\<close>
  "trackVisitor_vercel sv now req w0 =
     (case trackVisitor_try_vercel sv now req w0 of
        Inl e \<Rightarrow>
          (Error500, (case connectToDatabase_vercel w0 of Inl e' \<Rightarrow> w0 | Inr w \<Rightarrow> w))
      | Inr (body, w') \<Rightarrow> (Ok200 body, w'))"

section \<open>Analytics aggregator\<close>

subsection \<open>Date operators of the aggregation pipeline\<close>










subsection \<open>Timeline\<close>














subsection \<open>Recent visitors\<close>

definition digit_table :: "(char \<times> nat) list" where
  "digit_table =
     [(CHR ''0'', 0), (CHR ''1'', 1), (CHR ''2'', 2), (CHR ''3'', 3), (CHR ''4'', 4),
      (CHR ''5'', 5), (CHR ''6'', 6), (CHR ''7'', 7), (CHR ''8'', 8), (CHR ''9'', 9),
      (CHR ''a'', 10), (CHR ''b'', 11), (CHR ''c'', 12), (CHR ''d'', 13), (CHR ''e'', 14),
      (CHR ''f'', 15), (CHR ''A'', 10), (CHR ''B'', 11), (CHR ''C'', 12), (CHR ''D'', 13),
      (CHR ''E'', 14), (CHR ''F'', 15)]"

definition digit_value :: "nat \<Rightarrow> char \<Rightarrow> nat option" where
  \<comment> \<open>the value of a character as a digit of the radix, if it is one\<close>
  "digit_value radix c =
     (case map_of digit_table c of
        None \<Rightarrow> None
      | Some v \<Rightarrow> if v < radix then Some v else None)"

definition digits_value :: "nat \<Rightarrow> string \<Rightarrow> nat" where
  "digits_value radix z =
     foldl (\<lambda>acc c. acc * radix + (case digit_value radix c of None \<Rightarrow> 0 | Some v \<Rightarrow> v)) 0 z"

definition parseInt :: "string option \<Rightarrow> int option" where
  \<comment> \<open>\<^verbatim>\<open>parseInt(x)\<close> without a radix; \<open>None\<close> is \<^verbatim>\<open>NaN\<close>. The argument is turned into a
      string (\<^verbatim>\<open>undefined\<close> into \<^verbatim>\<open>'undefined'\<close>), leading white space and a sign are
      removed, \<^verbatim>\<open>0x\<close> selects radix 16, and the longest prefix of digits is read. The
      value is the exact integer, as the double is below \<open>2 ^ 53\<close>.\<close>
  "parseInt x =
     (let input = (case x of None \<Rightarrow> ''undefined'' | Some s \<Rightarrow> s);
          s0 = dropWhile is_space input;
          negative = prefix ''-'' s0;
          s1 = (if prefix ''-'' s0 \<or> prefix ''+'' s0 then drop 1 s0 else s0);
          hex = (prefix ''0x'' s1 \<or> prefix ''0X'' s1);
          radix = (if hex then 16 else 10);
          s2 = (if hex then drop 2 s1 else s1);
          z = takeWhile (\<lambda>c. digit_value radix c \<noteq> None) s2
      in if z = [] then None
         else Some ((if negative then - 1 else 1) * int (digits_value radix z)))"

definition effective_limit :: "string option \<Rightarrow> int" where
  \<comment> \<open>\<^verbatim>\<open>parseInt(req.query.limit) || 50\<close>: \<^verbatim>\<open>NaN\<close> and 0 are falsy\<close>
  "effective_limit q =
     (case parseInt q of
        None \<Rightarrow> 50
      | Some n \<Rightarrow> if n = 0 then 50 else n)"

definition sort_newest :: "visitor list \<Rightarrow> visitor list" where
  \<comment> \<open>\<^verbatim>\<open>.sort({ timestamp: -1 })\<close>; documents with equal timestamps keep their stored order\<close>
  "sort_newest docs = sort_key (\<lambda>d. - timestamp d) docs"

definition limit_cursor :: "int \<Rightarrow> visitor list \<Rightarrow> visitor list" where
  \<comment> \<open>\<^verbatim>\<open>.limit(n)\<close>: the driver takes the absolute value of a negative limit\<close>
  "limit_cursor n docs = take (nat \<bar>n\<bar>) docs"

definition recentVisitors :: "request \<Rightarrow> world \<Rightarrow> visitor list response \<times> world" where
  \<comment> \<open>\<^verbatim>\<open>GET /api/admin/recent-visitors\<close>, main server\<close>
  "recentVisitors req w0 =
     (let w = connectToDatabase w0
      in if \<not> connected w then (Ok200 [], w)
         else if \<not> reachable w then (Error500, w)
         else (Ok200 (limit_cursor (effective_limit (query_limit req)) (sort_newest (visitors w))), w))"

definition recentVisitors_vercel :: "request \<Rightarrow> world \<Rightarrow> visitor list response \<times> world" where
  \<comment> \<open>\<^verbatim>\<open>GET /api/admin/recent-visitors\<close>, serverless variant\<close>
  "recentVisitors_vercel req w0 =
     (case connectToDatabase_vercel w0 of
        Inl e \<Rightarrow> (Error500, w0)
      | Inr w \<Rightarrow>
          if \<not> reachable w then (Error500, w)
          else (Ok200 (limit_cursor (effective_limit (query_limit req)) (sort_newest (visitors w))), w))"

definition records_of :: "visitor list response \<Rightarrow> visitor list" where
  \<comment> \<open>the visitor records a response carries: none when the request failed\<close>
  "records_of r = (case r of Ok200 docs \<Rightarrow> docs | Error500 \<Rightarrow> [])"

section \<open>Cleanup utility\<close>

text \<open>
  \<^verbatim>\<open>src/cleandb.js\<close>. A run is the list of what the script does to the outside, in order,
  and the database it leaves. The database is the list of its collections with their
  number of documents; \<open>accepting\<close> says whether \<^verbatim>\<open>client.connect()\<close> succeeds.
\<close>

datatype line =
    StartBanner
  | ConnectedLine
  | NoCollectionsLine
  | FoundLine "string list"
  | CountLine string nat
  | DroppedLine string nat
  | DropFailedLine string
  | AlreadyCleanLine string
  | DropErrorLine string
  | SummaryLine nat nat
  | VerifyPassedLine
  | VerifyWarningLine "string list"
  | FailedLine
  | ClosedLine
  | EndBanner
  | SafetyWarning

datatype event =
    Print line
  | Connect
  | ListCollections
  | CountDocuments string
  | Drop string
  | Close
  | Exit nat

datatype outcome =
    Drops
  | Refuses
  | NsNotFound
  | DropFails
  | CountFails

record collection =
  name :: string
  docCount :: nat
  outcome :: outcome

record database =
  accepting :: bool
  collections :: "collection list"

fun drop_all :: "collection list \<Rightarrow> event list \<times> nat \<times> nat \<times> collection list" where
  \<comment> \<open>the loop over the collections: the events, \<^verbatim>\<open>totalDropped\<close>,
      \<^verbatim>\<open>totalDocumentsRemoved\<close> and the collections that are left. \<open>outcome\<close> says
      what the driver does for a collection: \<^verbatim>\<open>drop()\<close> returns true, returns false, raises
      \<^verbatim>\<open>ns not found\<close> or another error, or \<^verbatim>\<open>countDocuments()\<close> raises.\<close>
  "drop_all [] = ([], 0, 0, [])"
| "drop_all (c # rest) =
     (case drop_all rest of
        (evs, dropped, removed, left) \<Rightarrow>
          (case outcome c of
             Drops \<Rightarrow>
               ([CountDocuments (name c), Print (CountLine (name c) (docCount c)), Drop (name c),
                 Print (DroppedLine (name c) (docCount c))] @ evs,
                dropped + 1, removed + docCount c, left)
           | Refuses \<Rightarrow>
               ([CountDocuments (name c), Print (CountLine (name c) (docCount c)), Drop (name c),
                 Print (DropFailedLine (name c))] @ evs,
                dropped, removed, c # left)
           | NsNotFound \<Rightarrow>
               ([CountDocuments (name c), Print (CountLine (name c) (docCount c)), Drop (name c),
                 Print (AlreadyCleanLine (name c))] @ evs,
                dropped, removed, left)
           | DropFails \<Rightarrow>
               ([CountDocuments (name c), Print (CountLine (name c) (docCount c)), Drop (name c),
                 Print (DropErrorLine (name c))] @ evs,
                dropped, removed, c # left)
           | CountFails \<Rightarrow>
               ([CountDocuments (name c), Print (DropErrorLine (name c))] @ evs,
                dropped, removed, c # left)))"

definition finally_block :: "event list" where
  "finally_block = [Close, Print ClosedLine, Print EndBanner]"

definition cleanDatabase :: "database \<Rightarrow> event list \<times> database" where
  \<comment> \<open>a failed connect ends in \<^verbatim>\<open>process.exit(1)\<close> inside the \<^verbatim>\<open>catch\<close> block, before
      the \<^verbatim>\<open>finally\<close> block\<close>
  "cleanDatabase d =
     (if \<not> accepting d
      then ([Print StartBanner, Connect, Print FailedLine, Exit 1], d)
      else if collections d = []
      then ([Print StartBanner, Connect, Print ConnectedLine, ListCollections,
             Print NoCollectionsLine] @ finally_block, d)
      else (case drop_all (collections d) of
              (evs, dropped, removed, left) \<Rightarrow>
                ([Print StartBanner, Connect, Print ConnectedLine, ListCollections,
                  Print (FoundLine (map name (collections d)))]
                 @ evs
                 @ [Print (SummaryLine dropped removed), ListCollections,
                    Print (if left = [] then VerifyPassedLine
                           else VerifyWarningLine (map name left))]
                 @ finally_block,
                 d\<lparr>collections := left\<rparr>)))"

definition cleandb_main :: "string list \<Rightarrow> database \<Rightarrow> event list \<times> database" where
  \<comment> \<open>the command line interface at the end of the script\<close>
  "cleandb_main argv d =
     (if ''--confirm'' \<in> set argv then cleanDatabase d
      else ([Print SafetyWarning], d))"

definition opens_or_drops :: "event \<Rightarrow> bool" where
  \<comment> \<open>the events of the destructive path: a connection or any operation on the database\<close>
  "opens_or_drops ev =
     (case ev of
        Connect \<Rightarrow> True
      | ListCollections \<Rightarrow> True
      | CountDocuments n \<Rightarrow> True
      | Drop n \<Rightarrow> True
      | Close \<Rightarrow> True
      | Print l \<Rightarrow> False
      | Exit n \<Rightarrow> False)"

section \<open>Example inputs\<close>

definition plain_request :: request where
  \<comment> \<open>a request with no transport address, no header, no query and no body field\<close>
  "plain_request =
     \<lparr>req_ip = None, req_headers = Map.empty, connection_remoteAddress = None,
      socket_remoteAddress = None, connection_socket_remoteAddress = None,
      query_limit = None, query_filter = None, body_sessionId = None\<rparr>"

definition forwarded_request :: request where
  \<comment> \<open>a loopback transport address behind a proxy that sets \<^verbatim>\<open>x-forwarded-for\<close>\<close>
  "forwarded_request =
     plain_request\<lparr>req_ip := Some ''127.0.0.1'',
                   req_headers := [''x-forwarded-for'' \<mapsto> ''8.8.8.8, 10.0.0.5'']\<rparr>"

definition quiet_services :: services where
  \<comment> \<open>no Tor node known, every geo lookup a miss, no reputation or echo service reachable\<close>
  "quiet_services =
     \<lparr>torExitNodes = {}, geoip_lookup = (\<lambda>a. Inr None),
      getipintel = (\<lambda>a. Inl NetworkError), external_ip = []\<rparr>"

definition amazon_geo :: geo where
  "amazon_geo =
     \<lparr>geo_country = Some ''US'', geo_region = None, geo_city = None, geo_timezone = None,
      geo_ll = None, geo_org = Some ''Amazon Technologies Inc'', geo_as = None\<rparr>"

definition store_down :: world where
  \<comment> \<open>the document store cannot be reached and no connection was made before\<close>
  "store_down = \<lparr>reachable = False, connected = False, visitors = []\<rparr>"

definition visitor_at :: "int \<Rightarrow> visitor" where
  \<comment> \<open>a stored record created at the given instant\<close>
  "visitor_at t =
     \<lparr>ipv4 = ''8.8.8.8'', ipv6 = None,
      location = \<lparr>country = ''Unknown'', region = ''Unknown'', city = ''Unknown'',
                  timezone = ''Unknown'', lat = 0, lng = 0, isp = ''Unknown''\<rparr>,
      vpnInfo = make_verdict initial_state (Details False ''Unknown'' ''Unknown''),
      timestamp = t, sessionId = Generated t\<rparr>"

definition tor_services :: services where
  \<comment> \<open>one Tor exit node is known; the geo database has no record of it\<close>
  "tor_services = quiet_services\<lparr>torExitNodes := {''1.2.3.4''}\<rparr>"

definition tor_amazon_services :: services where
  \<comment> \<open>the geo database names a hosting provider for the Tor exit node\<close>
  "tor_amazon_services = tor_services\<lparr>geoip_lookup := (\<lambda>a. Inr (Some amazon_geo))\<rparr>"

definition failing_services :: services where
  \<comment> \<open>the geo library raises on every lookup\<close>
  "failing_services = quiet_services\<lparr>geoip_lookup := (\<lambda>a. Inl LookupError)\<rparr>"

definition public_request :: request where
  \<comment> \<open>the proxied request with the client address Express derives from the header\<close>
  "public_request = forwarded_request\<lparr>req_ip := Some ''8.8.8.8''\<rparr>"

definition three_visits :: "visitor list" where
  \<comment> \<open>records of 2024-01-01 at 03:05, 01:10 and 01:50 UTC, in the order they are stored\<close>
  "three_visits = [visitor_at 1704078300000, visitor_at 1704071400000, visitor_at 1704073800000]"


definition store_up :: world where
  "store_up = \<lparr>reachable = True, connected = True, visitors = three_visits\<rparr>"

definition tor_scored_services :: services where
  \<comment> \<open>the reputation service scores the Tor exit node 0.99\<close>
  "tor_scored_services = tor_services\<lparr>getipintel := (\<lambda>a. Inr (Some (99 / 100)))\<rparr>"

definition tor_failing_services :: services where
  \<comment> \<open>the geo library raises on the lookup of the Tor exit node\<close>
  "tor_failing_services = tor_services\<lparr>geoip_lookup := (\<lambda>a. Inl LookupError)\<rparr>"

section \<open>Properties of the string functions\<close>

lemma split_js_nonempty: "split_js sep s \<noteq> []"
  by (induction s) (auto split: list.splits)

lemma split_js_chars:
  "c \<in> set s \<Longrightarrow> c \<noteq> sep \<Longrightarrow> \<exists>p \<in> set (split_js sep s). c \<in> set p"
proof (induction s)
  case Nil
  then show ?case by simp
next
  case (Cons x xs)
  obtain p ps where sp: "split_js sep xs = p # ps"
    using split_js_nonempty [of sep xs] by (cases "split_js sep xs") auto
  show ?case
  proof (cases "c = x")
    case True
    with Cons.prems sp show ?thesis by auto
  next
    case False
    with Cons.prems have "c \<in> set xs" by simp
    with Cons.IH Cons.prems obtain q where "q \<in> set (split_js sep xs)" "c \<in> set q" by blast
    with sp show ?thesis by (cases "x = sep") auto
  qed
qed

lemma includes_js_set: "includes_js s sub \<Longrightarrow> set sub \<subseteq> set s"
proof (induction s)
  case Nil
  then show ?case by simp
next
  case (Cons x xs)
  show ?case
  proof (cases "prefix sub (x # xs)")
    case True
    then show ?thesis by (rule set_mono_prefix)
  next
    case False
    with Cons show ?thesis by auto
  qed
qed

text \<open>Two adjacent separators leave an empty group, and never as the first group.\<close>

lemma split_js_double: "includes_js s [sep, sep] \<Longrightarrow> [] \<in> set (tl (split_js sep s))"
proof (induction s)
  case Nil
  then show ?case by simp
next
  case (Cons x xs)
  obtain p ps where sp: "split_js sep xs = p # ps"
    using split_js_nonempty [of sep xs] by (cases "split_js sep xs") auto
  show ?case
  proof (cases "prefix [sep, sep] (x # xs)")
    case True
    then obtain ys where "x = sep" "xs = sep # ys" by (cases xs) auto
    then show ?thesis by simp
  next
    case False
    with Cons.prems have "includes_js xs [sep, sep]" by auto
    with Cons.IH have "[] \<in> set (tl (split_js sep xs))" .
    with sp show ?thesis by (cases "x = sep") auto
  qed
qed

section \<open>Properties of the public-IP validator\<close>

lemma ipv4Regex_no_colon: "ipv4Regex s \<Longrightarrow> CHR '':'' \<notin> set s"
proof
  assume r: "ipv4Regex s" and c: "CHR '':'' \<in> set s"
  from c obtain p where p: "p \<in> set (split_js CHR ''.'' s)" "CHR '':'' \<in> set p"
    using split_js_chars [of "CHR '':''" s "CHR ''.''"] by auto
  from r p(1) have "list_all is_digit p"
    by (auto simp: ipv4Regex_def Let_def list_all_iff)
  with p(2) have "is_digit CHR '':''" by (auto simp: list_all_iff)
  then show False by (simp add: is_digit_def)
qed

lemma ipv6Regex_no_dot: "ipv6Regex s \<Longrightarrow> CHR ''.'' \<notin> set s"
proof
  assume r: "ipv6Regex s" and c: "CHR ''.'' \<in> set s"
  from c obtain p where p: "p \<in> set (split_js CHR '':'' s)" "CHR ''.'' \<in> set p"
    using split_js_chars [of "CHR ''.''" s "CHR '':''"] by auto
  from r p(1) have "list_all is_hex p"
    by (auto simp: ipv6Regex_def Let_def list_all_iff)
  with p(2) have "is_hex CHR ''.''" by (auto simp: list_all_iff)
  then show False by (simp add: is_hex_def)
qed

lemma ipv6Regex_no_double: "ipv6Regex s \<Longrightarrow> \<not> includes_js s ''::''"
proof
  assume r: "ipv6Regex s" and c: "includes_js s ''::''"
  from c have "[] \<in> set (tl (split_js CHR '':'' s))" by (rule split_js_double)
  then have "[] \<in> set (split_js CHR '':'' s)"
    by (cases "split_js CHR '':'' s") auto
  with r show False by (auto simp: ipv6Regex_def Let_def list_all_iff)
qed

lemma ipv6Regex_first: "ipv6Regex s \<Longrightarrow> \<exists>c cs. s = c # cs \<and> c \<noteq> CHR '':''"
  by (cases s) (auto simp: ipv6Regex_def Let_def split: if_splits)

lemma prefix_dot: "prefix p s \<Longrightarrow> CHR ''.'' \<in> set p \<Longrightarrow> CHR ''.'' \<in> set s"
  using set_mono_prefix by fastforce

lemma ipv6Regex_not_private:
  assumes "ipv6Regex s" "\<not> prefix ''fe80:'' s" "\<not> prefix ''fc00:'' s" "\<not> prefix ''fd00:'' s"
  shows "\<not> list_ex (\<lambda>range. range s) privateRanges"
proof -
  have nd: "CHR ''.'' \<notin> set s" using assms(1) by (rule ipv6Regex_no_dot)
  have a: "\<And>p. CHR ''.'' \<in> set p \<Longrightarrow> \<not> prefix p s"
    using nd prefix_dot by blast
  have r: "\<not> range172 classB s"
    unfolding range172_def list_ex_iff using a by auto
  have l: "s \<noteq> ''::1''" using ipv6Regex_first [OF assms(1)] by auto
  show ?thesis
    using assms(2-4) r l a [of "''127.''"] a [of "''10.''"] a [of "''192.168.''"]
      a [of "''169.254.''"]
    by (simp add: privateRanges_def)
qed

lemma ipv6Regex_accepted:
  assumes "ipv6Regex s" "\<not> prefix ''fe80:'' s" "\<not> prefix ''fc00:'' s" "\<not> prefix ''fd00:'' s"
  shows "isValidPublicIP s"
proof -
  from ipv6Regex_first [OF assms(1)] obtain c cs where s: "s = c # cs" "c \<noteq> CHR '':''"
    by blast
  then have cl: "replace_mapped s = s" by (simp add: replace_mapped_def)
  from s have ne: "s \<noteq> []" by simp
  show ?thesis
    using ne cl assms(1) ipv6Regex_not_private [OF assms]
    by (simp add: isValidPublicIP_def Let_def)
qed

lemma regex_empty: "\<not> ipv4Regex []" "\<not> ipv6Regex []"
  by (simp_all add: ipv4Regex_def ipv6Regex_def)

lemma isValidPublicIP_mapped:
  assumes "\<not> prefix ''::ffff:'' s"
  shows "isValidPublicIP (''::ffff:'' @ s) = isValidPublicIP s"
proof -
  have a: "replace_mapped (''::ffff:'' @ s) = s" by (simp add: replace_mapped_def)
  have b: "replace_mapped s = s" using assms by (simp add: replace_mapped_def)
  have c: "(''::ffff:'' @ s = []) = False" by simp
  show ?thesis
    unfolding isValidPublicIP_def Let_def a b c
    using regex_empty by (cases "s = []") simp_all
qed

lemma isValidPublicIP_vercel_mapped:
  assumes "\<not> prefix ''::ffff:'' s"
  shows "isValidPublicIP_vercel (''::ffff:'' @ s) = isValidPublicIP_vercel s"
proof -
  have a: "replace_mapped (''::ffff:'' @ s) = s" by (simp add: replace_mapped_def)
  have b: "replace_mapped s = s" using assms by (simp add: replace_mapped_def)
  have c: "(''::ffff:'' @ s = []) = False" by simp
  show ?thesis
    unfolding isValidPublicIP_vercel_def Let_def a b c
    using regex_empty by (cases "s = []") simp_all
qed

lemma isValidPublicIP_no_double:
  "isValidPublicIP s \<Longrightarrow> \<not> includes_js (replace_mapped s) ''::''"
proof
  assume v: "isValidPublicIP s" and c: "includes_js (replace_mapped s) ''::''"
  from v have "ipv4Regex (replace_mapped s) \<or> ipv6Regex (replace_mapped s)"
    by (auto simp: isValidPublicIP_def Let_def split: if_splits)
  then show False
  proof
    assume "ipv4Regex (replace_mapped s)"
    then have "CHR '':'' \<notin> set (replace_mapped s)" by (rule ipv4Regex_no_colon)
    with includes_js_set [OF c] show False by simp
  next
    assume "ipv6Regex (replace_mapped s)"
    with c ipv6Regex_no_double show False by blast
  qed
qed

lemma isValidPublicIP_vercel_no_colon:
  "isValidPublicIP_vercel s \<Longrightarrow> CHR '':'' \<notin> set (replace_mapped s)"
  by (rule ipv4Regex_no_colon) (auto simp: isValidPublicIP_vercel_def Let_def split: if_splits)

lemma prefix_colon: "prefix p s \<Longrightarrow> CHR '':'' \<in> set p \<Longrightarrow> CHR '':'' \<in> set s"
  using set_mono_prefix by fastforce

text \<open>
  On a dotted quad the serverless variant decides by the five IPv4 ranges alone, and its
  alternatives for the second octet of 172.16.0.0/12 are exactly 16 to 31.
\<close>

lemma isValidPublicIP_vercel_ipv4:
  assumes "ipv4Regex s"
  shows "isValidPublicIP_vercel s =
     (\<not> prefix ''127.'' s \<and> \<not> prefix ''10.'' s \<and> \<not> range172 classB_vercel s
      \<and> \<not> prefix ''192.168.'' s \<and> \<not> prefix ''169.254.'' s)"
proof -
  have nc: "CHR '':'' \<notin> set s" using assms by (rule ipv4Regex_no_colon)
  have a: "\<And>p. CHR '':'' \<in> set p \<Longrightarrow> \<not> prefix p s"
    using nc prefix_colon by blast
  have cl: "replace_mapped s = s" using a [of "''::ffff:''"] by (simp add: replace_mapped_def)
  have ne: "s \<noteq> []" using assms regex_empty by auto
  have l: "s \<noteq> ''::1''" using nc by auto
  show ?thesis
    using assms ne cl l a [of "''fe80:''"] a [of "''fc00:''"] a [of "''fd00:''"]
    by (simp add: isValidPublicIP_vercel_def privateRanges_vercel_def)
qed

lemma classB_vercel_range:
  "range172 classB_vercel s =
     list_ex (\<lambda>n. prefix (''172.'' @ n @ ''.'') s)
       [''16'', ''17'', ''18'', ''19'', ''20'', ''21'', ''22'', ''23'',
        ''24'', ''25'', ''26'', ''27'', ''28'', ''29'', ''30'', ''31'']"
  by (simp add: range172_def classB_vercel_def)

text \<open>
  The main server matches the IPv6 ranges by the literal lower-case prefixes only: other
  8-group addresses of fe80::/10 and fc00::/7 pass.
\<close>

lemma isValidPublicIP_prefix_only:
  "isValidPublicIP ''fe90:0:0:0:0:0:0:1'' \<and> isValidPublicIP ''FE80:0:0:0:0:0:0:1''
   \<and> isValidPublicIP ''fd12:3456:789a:1:0:0:0:1''"
  by code_simp

text \<open>
  C3. The claim: every address of a private, loopback, link-local or unique-local range is
  rejected, and every well-formed public IPv4 address is accepted. The main server misses
  it in the second octet of 172.16.0.0/12: its alternatives end in 32 and 31 where the
  range ends in 30 and 31, so the private address 172.30.0.1 is accepted and the public
  address 172.32.0.1 is rejected. The serverless variant decides both as the claim says.
\<close>

theorem isValidPublicIP_class_b:
  "isValidPublicIP ''172.30.0.1'' \<and> \<not> isValidPublicIP ''172.32.0.1''
   \<and> \<not> isValidPublicIP_vercel ''172.30.0.1'' \<and> isValidPublicIP_vercel ''172.32.0.1''"
  by code_simp

text \<open>
  C6, as stated, fails on the serverless variant: its validator has no IPv6 expression, so
  a strict 8-group IPv6 address outside every excluded range is rejected there.
\<close>

theorem isValidPublicIP_vercel_rejects_ipv6:
  "ipv6Regex ''2001:db8:0:0:0:0:0:1''
   \<and> \<not> list_ex (\<lambda>range. range ''2001:db8:0:0:0:0:0:1'') privateRanges_vercel
   \<and> \<not> isValidPublicIP_vercel ''2001:db8:0:0:0:0:0:1''"
  by code_simp

text \<open>
  C6, amended. Both validators strip one leading \<^verbatim>\<open>::ffff:\<close> before they decide. The main
  server accepts every strict 8-group IPv6 address that starts with none of \<^verbatim>\<open>fe80:\<close>,
  \<^verbatim>\<open>fc00:\<close>, \<^verbatim>\<open>fd00:\<close>, and an address it accepts has no \<^verbatim>\<open>::\<close> left after the stripping, so
  every zero-compressed form is invalid. The serverless variant accepts IPv4 only: an
  address it accepts has no colon left after the stripping, so every IPv6 form, 8-group or
  zero-compressed, is invalid there.
\<close>

theorem isValidPublicIP_ipv6_forms:
  "(\<not> prefix ''::ffff:'' a \<longrightarrow>
       isValidPublicIP (''::ffff:'' @ a) = isValidPublicIP a \<and>
       isValidPublicIP_vercel (''::ffff:'' @ a) = isValidPublicIP_vercel a)
   \<and> (ipv6Regex b \<and> \<not> prefix ''fe80:'' b \<and> \<not> prefix ''fc00:'' b \<and> \<not> prefix ''fd00:'' b
          \<longrightarrow> isValidPublicIP b)
   \<and> (isValidPublicIP c \<longrightarrow> \<not> includes_js (replace_mapped c) ''::'')
   \<and> (isValidPublicIP_vercel d \<longrightarrow> CHR '':'' \<notin> set (replace_mapped d))"
  using isValidPublicIP_mapped isValidPublicIP_vercel_mapped ipv6Regex_accepted
    isValidPublicIP_no_double isValidPublicIP_vercel_no_colon
  by blast

theorem isValidPublicIP_ipv6_forms_witness:
  "\<not> prefix ''::ffff:'' ''8.8.8.8''
   \<and> isValidPublicIP ''::ffff:8.8.8.8'' \<and> isValidPublicIP ''8.8.8.8''
   \<and> isValidPublicIP_vercel ''::ffff:8.8.8.8'' \<and> isValidPublicIP_vercel ''8.8.8.8''
   \<and> ipv6Regex ''2001:db8:0:0:0:0:0:1'' \<and> isValidPublicIP ''2001:db8:0:0:0:0:0:1''
   \<and> \<not> includes_js (replace_mapped ''2001:db8:0:0:0:0:0:1'') ''::''
   \<and> CHR '':'' \<notin> set (replace_mapped ''::ffff:8.8.8.8'')"
proof -
  have h1: "\<not> prefix ''::ffff:'' ''8.8.8.8''" by simp
  have h2: "ipv6Regex ''2001:db8:0:0:0:0:0:1''" by code_simp
  have h3: "\<not> prefix ''fe80:'' ''2001:db8:0:0:0:0:0:1''
     \<and> \<not> prefix ''fc00:'' ''2001:db8:0:0:0:0:0:1''
     \<and> \<not> prefix ''fd00:'' ''2001:db8:0:0:0:0:0:1''" by simp
  have h4: "isValidPublicIP_vercel ''::ffff:8.8.8.8''" by code_simp
  have h5: "isValidPublicIP ''8.8.8.8''" by code_simp
  have h6: "isValidPublicIP_vercel ''8.8.8.8''" by code_simp
  note t = isValidPublicIP_ipv6_forms
    [of "''8.8.8.8''" "''2001:db8:0:0:0:0:0:1''" "''2001:db8:0:0:0:0:0:1''" "''::ffff:8.8.8.8''"]
  from t h1 h2 h3 h4 h5 h6 show ?thesis by simp
qed

section \<open>Properties of the client-IP resolver\<close>

text \<open>
  In the main server the first header of the list that is present and not empty ends the
  scan with a TypeError, whatever it holds; the serverless variant, which takes element 0
  of the split, returns the first token of \<^verbatim>\<open>x-forwarded-for\<close>.
\<close>

lemma scan_proxyHeaders_raises:
  "hs h = Some v \<Longrightarrow> v \<noteq> [] \<Longrightarrow> h \<in> set hdrs \<Longrightarrow> scan_proxyHeaders hs hdrs = Inl TypeError"
  by (induction hdrs) (auto simp: array_trim_def split: option.splits)

lemma getRealIP_forwarded_raises:
  assumes "method1 req = None" "req_headers req ''x-forwarded-for'' = Some ''8.8.8.8, 10.0.0.5''"
  shows "getRealIP req = Inl TypeError"
proof -
  have "scan_proxyHeaders (req_headers req) proxyHeaders = Inl TypeError"
    using scan_proxyHeaders_raises
      [of "req_headers req" "''x-forwarded-for''" "''8.8.8.8, 10.0.0.5''" proxyHeaders] assms(2)
    by (simp add: proxyHeaders_def)
  with assms(1) show ?thesis by (simp add: getRealIP_def header_fallback_def)
qed

lemma first_token_public: "isValidPublicIP_vercel (first_trim (split_js CHR '','' ''8.8.8.8, 10.0.0.5''))"
  by code_simp

lemma first_token_value: "first_trim (split_js CHR '','' ''8.8.8.8, 10.0.0.5'') = ''8.8.8.8''"
  by code_simp

lemma getRealIP_vercel_forwarded:
  assumes "req_headers req ''x-forwarded-for'' = Some ''8.8.8.8, 10.0.0.5''"
  shows "getRealIP_vercel req = ''8.8.8.8''"
proof -
  have "scan_vercelHeaders (req_headers req) vercelHeaders = Some ''8.8.8.8''"
    using assms first_token_public first_token_value
    by (simp add: vercelHeaders_def Let_def)
  then show ?thesis by (simp add: getRealIP_vercel_def)
qed

text \<open>
  C2. The claim: with an invalid transport address and the header \<^verbatim>\<open>x-forwarded-for\<close> set to
  \<^verbatim>\<open>8.8.8.8, 10.0.0.5\<close> the resolver returns \<^verbatim>\<open>8.8.8.8\<close>. On that request the main
  server raises a TypeError (it calls \<^verbatim>\<open>trim\<close> on the Array that \<^verbatim>\<open>split\<close> returns); the
  serverless variant returns \<^verbatim>\<open>8.8.8.8\<close>.
\<close>

theorem getRealIP_forwarded_request:
  "getRealIP forwarded_request = Inl TypeError
   \<and> getRealIP_vercel forwarded_request = ''8.8.8.8''"
proof -
  have m: "method1 forwarded_request = None"
    by (simp add: method1_def forwarded_request_def plain_request_def)
  have h: "req_headers forwarded_request ''x-forwarded-for'' = Some ''8.8.8.8, 10.0.0.5''"
    by (simp add: forwarded_request_def plain_request_def)
  show ?thesis
    using getRealIP_forwarded_raises [OF m h] getRealIP_vercel_forwarded [OF h] by simp
qed

text \<open>
  C7, as stated, fails: step 1 tests the transport address against \<^verbatim>\<open>::1\<close>, \<^verbatim>\<open>127.0.0.1\<close>
  and the prefix \<^verbatim>\<open>::ffff:127.0.0.1\<close> only, so a link-local address is returned by step 1.
\<close>

theorem method1_returns_link_local:
  "method1 (plain_request\<lparr>req_ip := Some ''fe80::1''\<rparr>) = Some ''fe80::1''
   \<and> getRealIP (plain_request\<lparr>req_ip := Some ''fe80::1''\<rparr>) = Inr ''fe80::1''
   \<and> method1 (plain_request\<lparr>req_ip := Some ''169.254.1.1''\<rparr>) = Some ''169.254.1.1''
   \<and> getRealIP (plain_request\<lparr>req_ip := Some ''169.254.1.1''\<rparr>) = Inr ''169.254.1.1''"
  by (simp add: getRealIP_def method1_def plain_request_def replace_mapped_def)

text \<open>
  C7, amended. Step 1 returns the transport address, with one leading \<^verbatim>\<open>::ffff:\<close> removed,
  exactly when the address is present, not empty, neither \<^verbatim>\<open>::1\<close> nor \<^verbatim>\<open>127.0.0.1\<close>, and
  does not start with \<^verbatim>\<open>::ffff:127.0.0.1\<close>; the resolver then returns that address.
  Otherwise resolution falls through to the header scan. Link-local addresses are not
  excluded by step 1.
\<close>

theorem method1_transport_address:
  "(method1 r1 = Some x \<longleftrightarrow>
      (\<exists>a. req_ip r1 = Some a \<and> a \<noteq> [] \<and> a \<noteq> ''::1'' \<and> a \<noteq> ''127.0.0.1''
           \<and> \<not> prefix ''::ffff:127.0.0.1'' a \<and> x = replace_mapped a))
   \<and> (method1 r2 = Some y \<longrightarrow> getRealIP r2 = Inr y)
   \<and> (method1 r3 = None \<longrightarrow> getRealIP r3 = header_fallback r3)"
  by (auto simp: method1_def getRealIP_def split: option.splits if_splits)

theorem method1_transport_address_witness:
  "method1 (plain_request\<lparr>req_ip := Some ''::ffff:8.8.8.8''\<rparr>) = Some ''8.8.8.8''
   \<and> getRealIP (plain_request\<lparr>req_ip := Some ''::ffff:8.8.8.8''\<rparr>) = Inr ''8.8.8.8''
   \<and> method1 (plain_request\<lparr>req_ip := Some ''127.0.0.1''\<rparr>) = None
   \<and> getRealIP (plain_request\<lparr>req_ip := Some ''127.0.0.1''\<rparr>)
       = header_fallback (plain_request\<lparr>req_ip := Some ''127.0.0.1''\<rparr>)"
proof -
  have h1: "method1 (plain_request\<lparr>req_ip := Some ''::ffff:8.8.8.8''\<rparr>) = Some ''8.8.8.8''"
    by (simp add: method1_def plain_request_def replace_mapped_def)
  have h2: "method1 (plain_request\<lparr>req_ip := Some ''127.0.0.1''\<rparr>) = None"
    by (simp add: method1_def plain_request_def)
  note t = method1_transport_address
    [of "plain_request\<lparr>req_ip := Some ''::ffff:8.8.8.8''\<rparr>" "''8.8.8.8''"
        "plain_request\<lparr>req_ip := Some ''::ffff:8.8.8.8''\<rparr>" "''8.8.8.8''"
        "plain_request\<lparr>req_ip := Some ''127.0.0.1''\<rparr>"]
  from t h1 h2 show ?thesis by simp
qed

section \<open>Properties of the VPN/proxy classifier\<close>

lemma check_tor_hit:
  "ip \<in> nodes \<Longrightarrow> check_tor nodes ip initial_state
     = \<lparr>isVPN = True, vpnType = ''tor'', confidence = 95 / 100,
        detectionMethods = [''tor_exit_node'']\<rparr>"
  by (simp add: check_tor_def initial_state_def)

lemma check_isp_cases:
  "check_isp inds g st = st \<or>
   (\<exists>t. (t = ''vpn'' \<or> t = ''hosting/proxy'') \<and> check_isp inds g st =
      st\<lparr>isVPN := True, vpnType := t, confidence := max (confidence st) (7 / 10),
         detectionMethods := detectionMethods st @ [''isp_analysis'']\<rparr>)"
  by (auto simp: check_isp_def Let_def split: option.splits)

text \<open>On the state of a Tor match the ISP method changes the type and never the confidence.\<close>

lemma check_isp_tor:
  assumes "st = \<lparr>isVPN = True, vpnType = ''tor'', confidence = 95 / 100,
        detectionMethods = [''tor_exit_node'']\<rparr>"
  shows "check_isp inds g st = st \<or>
   (\<exists>t. (t = ''vpn'' \<or> t = ''hosting/proxy'') \<and> check_isp inds g st =
      \<lparr>isVPN = True, vpnType = t, confidence = 95 / 100,
        detectionMethods = [''tor_exit_node'', ''isp_analysis'']\<rparr>)"
  using check_isp_cases [of inds g st] assms by auto

lemma check_getipintel_quiet:
  "(case r of Inr (Some score) \<Rightarrow> \<not> 1 / 2 < score | _ \<Rightarrow> True) \<Longrightarrow>
     check_getipintel r st = st"
  by (auto simp: check_getipintel_def split: sum.splits option.splits)

lemma check_getipintel_hit:
  "r = Inr (Some score) \<Longrightarrow> 1 / 2 < score \<Longrightarrow>
   check_getipintel r st =
     st\<lparr>isVPN := True, vpnType := (if score > 8 / 10 then ''vpn'' else ''proxy''),
        confidence := max (confidence st) score,
        detectionMethods := detectionMethods st @ [''getipintel'']\<rparr>"
  by (simp add: check_getipintel_def)

lemma detectVPNProxy_tor_main:
  assumes "ip \<in> torExitNodes sv" "geoip_lookup sv ip = Inr g"
  shows "\<exists>v. detectVPNProxy sv ip = Inr v
     \<and> isVPN v \<and> ''tor_exit_node'' \<in> set (detectionMethods v)
     \<and> confidence v = tor_confidence (getipintel sv ip)
     \<and> ((detectionMethods v = [''tor_exit_node''] \<and> vpnType v = ''tor''
           \<and> confidence v = 95 / 100)
        \<or> (detectionMethods v = [''tor_exit_node'', ''isp_analysis'']
            \<and> (vpnType v = ''vpn'' \<or> vpnType v = ''hosting/proxy''))
        \<or> (last (detectionMethods v) = ''getipintel''
            \<and> (vpnType v = ''vpn'' \<or> vpnType v = ''proxy'')))"
proof -
  let ?st1 = "check_tor (torExitNodes sv) ip initial_state"
  let ?st2 = "check_isp vpnIndicators g ?st1"
  let ?r = "getipintel sv ip"
  have s1: "?st1 = \<lparr>isVPN = True, vpnType = ''tor'', confidence = 95 / 100,
        detectionMethods = [''tor_exit_node'']\<rparr>"
    using assms(1) by (rule check_tor_hit)
  note c2 = check_isp_tor [OF s1, of vpnIndicators g]
  have v: "detectVPNProxy sv ip = Inr (make_verdict (check_getipintel ?r ?st2)
      (Details (ip \<in> torExitNodes sv)
         (or_unknown (case g of None \<Rightarrow> None | Some ge \<Rightarrow> geo_org ge))
         (or_unknown (case g of None \<Rightarrow> None | Some ge \<Rightarrow> geo_as ge))))"
    using assms(2) by (simp add: detectVPNProxy_def detectVPNProxy_try_def Let_def)
  show ?thesis
  proof (cases "\<exists>score. ?r = Inr (Some score) \<and> 1 / 2 < score")
    case True
    then obtain score where sc: "?r = Inr (Some score)" "1 / 2 < score" by blast
    note h = check_getipintel_hit [OF sc, of ?st2]
    show ?thesis
      unfolding v h using c2 s1 sc
      by (auto simp: make_verdict_def tor_confidence_def)
  next
    case False
    then have q: "check_getipintel ?r ?st2 = ?st2"
      by (intro check_getipintel_quiet) (auto split: sum.splits option.splits)
    have t: "tor_confidence ?r = 95 / 100"
      using False by (auto simp: tor_confidence_def split: sum.splits option.splits)
    show ?thesis
      unfolding v q t using c2 s1
      by (auto simp: make_verdict_def)
  qed
qed

lemma detectVPNProxy_tor_vercel:
  assumes "ip \<in> torExitNodes sv" "geoip_lookup sv ip = Inr g"
  shows "\<exists>w. detectVPNProxy_vercel sv ip = Inr w
     \<and> isVPN w \<and> ''tor_exit_node'' \<in> set (detectionMethods w)
     \<and> confidence w = 95 / 100
     \<and> ((detectionMethods w = [''tor_exit_node''] \<and> vpnType w = ''tor'')
        \<or> (detectionMethods w = [''tor_exit_node'', ''isp_analysis'']
            \<and> (vpnType w = ''vpn'' \<or> vpnType w = ''hosting/proxy'')))"
proof -
  let ?st1 = "check_tor (torExitNodes sv) ip initial_state"
  have s1: "?st1 = \<lparr>isVPN = True, vpnType = ''tor'', confidence = 95 / 100,
        detectionMethods = [''tor_exit_node'']\<rparr>"
    using assms(1) by (rule check_tor_hit)
  note c2 = check_isp_tor [OF s1, of vpnIndicators_vercel g]
  have v: "detectVPNProxy_vercel sv ip
      = Inr (make_verdict (check_isp vpnIndicators_vercel g ?st1)
          (Details_vercel (ip \<in> torExitNodes sv)
             (or_unknown (case g of None \<Rightarrow> None | Some ge \<Rightarrow> geo_org ge))))"
    using assms(2)
    by (simp add: detectVPNProxy_vercel_def detectVPNProxy_try_vercel_def Let_def)
  show ?thesis
    unfolding v using c2 s1 by (auto simp: make_verdict_def)
qed

lemma lower_amazon: "toLowerCase ''Amazon Technologies Inc'' = ''amazon technologies inc''"
  by code_simp

lemma find_amazon:
  "List.find (includes_js ''amazon technologies inc'') vpnIndicators = Some ''amazon''"
  by code_simp

lemma find_amazon_vercel:
  "List.find (includes_js ''amazon technologies inc'') vpnIndicators_vercel = Some ''amazon''"
  by code_simp

text \<open>
  C4, as stated, fails in three ways. The methods run one after the other and each match
  assigns \<^verbatim>\<open>vpnType\<close>: for a Tor exit node whose geo record names a hosting provider the
  verdict carries the type \<^verbatim>\<open>hosting/proxy\<close>, in both variants. In the main server a
  reputation score of 0.99 gives the type \<^verbatim>\<open>vpn\<close> and the confidence 0.99. And when the
  geo lookup raises, the verdict is the degraded one, with \<^verbatim>\<open>isVPN = false\<close>.
\<close>

theorem detectVPNProxy_tor_overwritten:
  "''1.2.3.4'' \<in> torExitNodes tor_amazon_services
   \<and> detectVPNProxy tor_amazon_services ''1.2.3.4''
      = Inr \<lparr>isVPN = True, vpnType = ''hosting/proxy'', confidence = 95 / 100,
             detectionMethods = [''tor_exit_node'', ''isp_analysis''],
             details = Details True ''Amazon Technologies Inc'' ''Unknown''\<rparr>
   \<and> detectVPNProxy_vercel tor_amazon_services ''1.2.3.4''
      = Inr \<lparr>isVPN = True, vpnType = ''hosting/proxy'', confidence = 95 / 100,
             detectionMethods = [''tor_exit_node'', ''isp_analysis''],
             details = Details_vercel True ''Amazon Technologies Inc''\<rparr>
   \<and> ''1.2.3.4'' \<in> torExitNodes tor_scored_services
   \<and> detectVPNProxy tor_scored_services ''1.2.3.4''
      = Inr \<lparr>isVPN = True, vpnType = ''vpn'', confidence = 99 / 100,
             detectionMethods = [''tor_exit_node'', ''getipintel''],
             details = Details True ''Unknown'' ''Unknown''\<rparr>
   \<and> ''1.2.3.4'' \<in> torExitNodes tor_failing_services
   \<and> detectVPNProxy tor_failing_services ''1.2.3.4''
      = Inr (degraded (ErrorDetails LookupError))
   \<and> detectVPNProxy_vercel tor_failing_services ''1.2.3.4'' = Inr (degraded NoDetails)
   \<and> isVPN (degraded NoDetails) = False"
  using lower_amazon find_amazon find_amazon_vercel
  by (simp add: detectVPNProxy_def detectVPNProxy_try_def detectVPNProxy_vercel_def
      detectVPNProxy_try_vercel_def tor_amazon_services_def tor_scored_services_def
      tor_failing_services_def tor_services_def quiet_services_def
      amazon_geo_def check_tor_def check_isp_def check_getipintel_def initial_state_def
      make_verdict_def degraded_def or_unknown_def Let_def)

text \<open>
  C4, amended. For an IP of the Tor set, when the geo lookup does not raise, the verdict of
  either variant has \<^verbatim>\<open>isVPN = true\<close> and names \<^verbatim>\<open>tor_exit_node\<close> among its detection
  methods. The confidence is 0.95; only in the main server, when the reputation score is
  above 0.95, it is the score, capped at 1. The type is \<^verbatim>\<open>tor\<close> when \<^verbatim>\<open>tor_exit_node\<close> is
  the only method that matched; otherwise the last method that matched has overwritten it:
  the ISP method with \<^verbatim>\<open>vpn\<close> or \<^verbatim>\<open>hosting/proxy\<close>, the reputation method of the main
  server with \<^verbatim>\<open>vpn\<close> or \<^verbatim>\<open>proxy\<close>.
\<close>

theorem detectVPNProxy_tor:
  assumes "ip \<in> torExitNodes sv" "geoip_lookup sv ip = Inr g"
  shows "\<exists>v w. detectVPNProxy sv ip = Inr v \<and> detectVPNProxy_vercel sv ip = Inr w
     \<and> isVPN v \<and> ''tor_exit_node'' \<in> set (detectionMethods v)
     \<and> confidence v
         = (case getipintel sv ip of
              Inl e \<Rightarrow> 95 / 100
            | Inr None \<Rightarrow> 95 / 100
            | Inr (Some score) \<Rightarrow> if 95 / 100 < score then min score 1 else 95 / 100)
     \<and> ((detectionMethods v = [''tor_exit_node''] \<and> vpnType v = ''tor''
           \<and> confidence v = 95 / 100)
        \<or> (detectionMethods v = [''tor_exit_node'', ''isp_analysis'']
            \<and> (vpnType v = ''vpn'' \<or> vpnType v = ''hosting/proxy''))
        \<or> (last (detectionMethods v) = ''getipintel''
            \<and> (vpnType v = ''vpn'' \<or> vpnType v = ''proxy'')))
     \<and> isVPN w \<and> ''tor_exit_node'' \<in> set (detectionMethods w)
     \<and> confidence w = 95 / 100
     \<and> ((detectionMethods w = [''tor_exit_node''] \<and> vpnType w = ''tor'')
        \<or> (detectionMethods w = [''tor_exit_node'', ''isp_analysis'']
            \<and> (vpnType w = ''vpn'' \<or> vpnType w = ''hosting/proxy'')))"
  using detectVPNProxy_tor_main [OF assms] detectVPNProxy_tor_vercel [OF assms]
  unfolding tor_confidence_def by blast

theorem detectVPNProxy_tor_witness:
  "''1.2.3.4'' \<in> torExitNodes tor_services
   \<and> geoip_lookup tor_services ''1.2.3.4'' = Inr None
   \<and> detectVPNProxy tor_services ''1.2.3.4''
      = Inr \<lparr>isVPN = True, vpnType = ''tor'', confidence = 95 / 100,
             detectionMethods = [''tor_exit_node''],
             details = Details True ''Unknown'' ''Unknown''\<rparr>
   \<and> detectVPNProxy_vercel tor_services ''1.2.3.4''
      = Inr \<lparr>isVPN = True, vpnType = ''tor'', confidence = 95 / 100,
             detectionMethods = [''tor_exit_node''],
             details = Details_vercel True ''Unknown''\<rparr>"
proof -
  have h1: "''1.2.3.4'' \<in> torExitNodes tor_services"
    by (simp add: tor_services_def quiet_services_def)
  have h2: "geoip_lookup tor_services ''1.2.3.4'' = Inr None"
    by (simp add: tor_services_def quiet_services_def)
  have e1: "detectVPNProxy tor_services ''1.2.3.4''
      = Inr \<lparr>isVPN = True, vpnType = ''tor'', confidence = 95 / 100,
             detectionMethods = [''tor_exit_node''],
             details = Details True ''Unknown'' ''Unknown''\<rparr>"
    by (simp add: detectVPNProxy_def detectVPNProxy_try_def tor_services_def quiet_services_def
      check_tor_def check_isp_def check_getipintel_def initial_state_def
      make_verdict_def or_unknown_def Let_def)
  have e2: "detectVPNProxy_vercel tor_services ''1.2.3.4''
      = Inr \<lparr>isVPN = True, vpnType = ''tor'', confidence = 95 / 100,
             detectionMethods = [''tor_exit_node''],
             details = Details_vercel True ''Unknown''\<rparr>"
    by (simp add: detectVPNProxy_vercel_def detectVPNProxy_try_vercel_def tor_services_def
      quiet_services_def check_tor_def check_isp_def initial_state_def
      make_verdict_def or_unknown_def Let_def)
  from detectVPNProxy_tor [OF h1 h2] h1 h2 e1 e2 show ?thesis by simp
qed

text \<open>
  C5. The classifier never raises: in both variants the promise always resolves with a
  verdict. When the body of the \<^verbatim>\<open>try\<close> block raises, which it does when the geo lookup
  raises, the verdict is the degraded one, with \<^verbatim>\<open>isVPN = false\<close>, type \<^verbatim>\<open>unknown\<close> and
  confidence 0.
\<close>

theorem detectVPNProxy_never_raises:
  "(\<exists>v. detectVPNProxy sv ip = Inr v) \<and> (\<exists>v. detectVPNProxy_vercel sv ip = Inr v)
   \<and> (detectVPNProxy_try sv1 ip1 = Inl e1 \<longrightarrow>
        detectVPNProxy sv1 ip1 = Inr (degraded (ErrorDetails e1)))
   \<and> (detectVPNProxy_try_vercel sv2 ip2 = Inl e2 \<longrightarrow>
        detectVPNProxy_vercel sv2 ip2 = Inr (degraded NoDetails))
   \<and> (geoip_lookup sv3 ip3 = Inl e3 \<longrightarrow>
        detectVPNProxy sv3 ip3 = Inr (degraded (ErrorDetails e3))
        \<and> detectVPNProxy_vercel sv3 ip3 = Inr (degraded NoDetails))
   \<and> isVPN (degraded d) = False \<and> vpnType (degraded d) = ''unknown''
   \<and> confidence (degraded d) = 0"
  by (auto simp: detectVPNProxy_def detectVPNProxy_vercel_def detectVPNProxy_try_def
      detectVPNProxy_try_vercel_def degraded_def Let_def split: sum.splits)

theorem detectVPNProxy_never_raises_witness:
  "detectVPNProxy_try failing_services ''8.8.8.8'' = Inl LookupError
   \<and> detectVPNProxy_try_vercel failing_services ''8.8.8.8'' = Inl LookupError
   \<and> geoip_lookup failing_services ''8.8.8.8'' = Inl LookupError
   \<and> detectVPNProxy failing_services ''8.8.8.8'' = Inr (degraded (ErrorDetails LookupError))
   \<and> detectVPNProxy_vercel failing_services ''8.8.8.8'' = Inr (degraded NoDetails)"
proof -
  have h1: "detectVPNProxy_try failing_services ''8.8.8.8'' = Inl LookupError"
    by (simp add: detectVPNProxy_try_def failing_services_def quiet_services_def Let_def)
  have h2: "detectVPNProxy_try_vercel failing_services ''8.8.8.8'' = Inl LookupError"
    by (simp add: detectVPNProxy_try_vercel_def failing_services_def quiet_services_def Let_def)
  have h3: "geoip_lookup failing_services ''8.8.8.8'' = Inl LookupError"
    by (simp add: failing_services_def quiet_services_def)
  note t = detectVPNProxy_never_raises
    [of failing_services "''8.8.8.8''" failing_services "''8.8.8.8''" LookupError
        failing_services "''8.8.8.8''" LookupError failing_services "''8.8.8.8''" LookupError
        NoDetails]
  from t h1 h2 h3 show ?thesis by simp
qed

section \<open>Properties of the visitor recorder\<close>

lemma unknown_not_public: "\<not> isValidPublicIP ''unknown''"
  by code_simp

lemma final_ip_public: "isValidPublicIP a \<Longrightarrow> final_ip sv a = a"
  using unknown_not_public by (auto simp: final_ip_def isValidPublicIP_def)

text \<open>
  C1, as stated, fails on the serverless variant: its \<^verbatim>\<open>connectToDatabase\<close> rethrows the
  connection error, the handler catches it and answers with status 500, before any
  classification. The request carries the public address 8.8.8.8 in \<^verbatim>\<open>x-forwarded-for\<close>.
\<close>

theorem trackVisitor_vercel_store_down:
  "\<not> reachable store_down \<and> \<not> connected store_down
   \<and> req_headers forwarded_request ''x-forwarded-for'' = Some ''8.8.8.8, 10.0.0.5''
   \<and> getRealIP_vercel forwarded_request = ''8.8.8.8''
   \<and> trackVisitor_vercel quiet_services 0 forwarded_request store_down = (Error500, store_down)"
  using getRealIP_vercel_forwarded [of forwarded_request]
  by (simp add: store_down_def forwarded_request_def plain_request_def trackVisitor_vercel_def
      trackVisitor_try_vercel_def connectToDatabase_vercel_def)

text \<open>
  C1, amended. Main server: when the store is unavailable, the resolver returns a public
  address and the geo lookup does not raise, the handler still classifies the address and
  answers with \<^verbatim>\<open>success: true\<close>, the address as \<^verbatim>\<open>detectedIP\<close>, the location and the VPN
  flag, and nothing is persisted. Serverless variant: when the store is unavailable the
  handler answers with status 500 and nothing is persisted.
\<close>

theorem trackVisitor_store_unavailable:
  "(\<not> reachable w \<and> \<not> connected w \<and> getRealIP req = Inr a \<and> isValidPublicIP a
      \<and> getLocationInfo sv a = Inr loc \<longrightarrow>
      (\<exists>vpn. detectVPNProxy sv a = Inr vpn
         \<and> trackVisitor sv now req w
            = (Ok200 \<lparr>success = True, detectedIP = a,
                      location_text = city loc @ '', '' @ country loc,
                      vpnDetected = isVPN vpn\<rparr>, w)))
   \<and> (\<not> reachable w' \<and> \<not> connected w' \<longrightarrow>
        trackVisitor_vercel sv' now' req' w' = (Error500, w'))"
proof -
  have v: "\<exists>vpn. detectVPNProxy sv a = Inr vpn"
    by (auto simp: detectVPNProxy_def split: sum.splits)
  show ?thesis
    using v
    by (auto simp: trackVisitor_def trackVisitor_try_def connectToDatabase_def final_ip_public
        Let_def trackVisitor_vercel_def trackVisitor_try_vercel_def connectToDatabase_vercel_def)
qed

theorem trackVisitor_store_unavailable_witness:
  "\<not> reachable store_down \<and> \<not> connected store_down
   \<and> getRealIP public_request = Inr ''8.8.8.8'' \<and> isValidPublicIP ''8.8.8.8''
   \<and> trackVisitor quiet_services 0 public_request store_down
       = (Ok200 \<lparr>success = True, detectedIP = ''8.8.8.8'',
                 location_text = ''Unknown, Unknown'', vpnDetected = False\<rparr>, store_down)
   \<and> trackVisitor_vercel quiet_services 0 public_request store_down = (Error500, store_down)"
proof -
  have h1: "\<not> reachable store_down \<and> \<not> connected store_down" by (simp add: store_down_def)
  have h2: "getRealIP public_request = Inr ''8.8.8.8''"
    by (simp add: getRealIP_def method1_def public_request_def forwarded_request_def
        plain_request_def replace_mapped_def)
  have h3: "isValidPublicIP ''8.8.8.8''" by code_simp
  have h4: "getLocationInfo quiet_services ''8.8.8.8''
      = Inr \<lparr>country = ''Unknown'', region = ''Unknown'', city = ''Unknown'',
               timezone = ''Unknown'', lat = 0, lng = 0, isp = ''Unknown''\<rparr>"
    by (simp add: getLocationInfo_def quiet_services_def)
  have h5: "detectVPNProxy quiet_services ''8.8.8.8''
      = Inr (make_verdict initial_state (Details False ''Unknown'' ''Unknown''))"
    by (simp add: detectVPNProxy_def detectVPNProxy_try_def quiet_services_def check_tor_def
        check_isp_def check_getipintel_def or_unknown_def Let_def)
  note t = trackVisitor_store_unavailable
    [of store_down public_request "''8.8.8.8''" quiet_services
      "\<lparr>country = ''Unknown'', region = ''Unknown'', city = ''Unknown'',
        timezone = ''Unknown'', lat = 0, lng = 0, isp = ''Unknown''\<rparr>" 0
      store_down quiet_services 0 public_request]
  from t h1 h2 h3 h4 h5 show ?thesis by (simp add: make_verdict_def initial_state_def)
qed

section \<open>Properties of the analytics aggregator\<close>

subsection \<open>Timeline\<close>


















subsection \<open>Recent visitors\<close>

lemma sort_newest_desc: "sorted_wrt (\<lambda>a b. timestamp b \<le> timestamp a) (sort_newest docs)"
proof -
  have "sorted (map (\<lambda>d. - timestamp d) (sort_newest docs))"
    by (simp add: sort_newest_def)
  then show ?thesis by (simp add: sorted_map sorted_wrt_iff_nth_less)
qed

lemma limit_cursor_desc:
  "sorted_wrt (\<lambda>a b. timestamp b \<le> timestamp a) (limit_cursor n (sort_newest docs))"
  unfolding limit_cursor_def using sort_newest_desc sorted_wrt_take by blast

lemma limit_cursor_length: "length (limit_cursor n docs) \<le> nat \<bar>n\<bar>"
  by (simp add: limit_cursor_def)

lemma limit_cursor_set: "set (limit_cursor n (sort_newest docs)) \<subseteq> set docs"
  unfolding limit_cursor_def sort_newest_def
  using set_take_subset [of _ "sort_key (\<lambda>d. - timestamp d) docs"] by simp

lemma effective_limit_default:
  "parseInt q = None \<or> parseInt q = Some 0 \<Longrightarrow> effective_limit q = 50"
  by (auto simp: effective_limit_def)

lemma effective_limit_nonzero: "effective_limit q \<noteq> 0"
  by (auto simp: effective_limit_def split: option.splits)

lemma parseInt_absent: "parseInt None = None"
  by code_simp

lemma parseInt_examples:
  "parseInt (Some ''abc'') = None \<and> parseInt (Some '''') = None
   \<and> parseInt (Some ''0'') = Some 0 \<and> parseInt (Some ''-0'') = Some 0
   \<and> parseInt (Some ''10'') = Some 10 \<and> parseInt (Some ''12abc'') = Some 12"
  by code_simp

text \<open>A value whose first character after the white space is no digit and no sign is not numeric.\<close>

lemma parseInt_no_digit:
  assumes "dropWhile is_space s = c # rest" "\<not> is_digit c" "c \<noteq> CHR ''-''" "c \<noteq> CHR ''+''"
  shows "parseInt (Some s) = None"
proof -
  have d: "digit_value 10 c = None \<or> is_digit c"
    by (simp add: digit_value_def digit_table_def is_digit_def)
  have z: "c \<noteq> CHR ''0''" using assms(2) by (auto simp: is_digit_def)
  show ?thesis using assms d z by (simp add: parseInt_def Let_def)
qed

text \<open>
  C10. When the \<^verbatim>\<open>limit\<close> parameter is absent or not numeric (\<^verbatim>\<open>parseInt\<close> gives \<^verbatim>\<open>NaN\<close>) or
  parses to 0, the limit is 50: the response of either variant carries at most 50 records,
  all of them stored records, newest first, and when the store is reachable they are the
  first 50 of the collection sorted by descending timestamp.
\<close>

theorem recentVisitors_default_limit:
  assumes "parseInt (query_limit req) = None \<or> parseInt (query_limit req) = Some 0"
  shows "effective_limit (query_limit req) = 50
    \<and> length (records_of (fst (recentVisitors req w))) \<le> 50
    \<and> sorted_wrt (\<lambda>a b. timestamp b \<le> timestamp a) (records_of (fst (recentVisitors req w)))
    \<and> set (records_of (fst (recentVisitors req w))) \<subseteq> set (visitors w)
    \<and> length (records_of (fst (recentVisitors_vercel req w))) \<le> 50
    \<and> sorted_wrt (\<lambda>a b. timestamp b \<le> timestamp a)
         (records_of (fst (recentVisitors_vercel req w)))
    \<and> set (records_of (fst (recentVisitors_vercel req w))) \<subseteq> set (visitors w)
    \<and> (reachable w \<longrightarrow>
         fst (recentVisitors req w) = Ok200 (take 50 (sort_newest (visitors w)))
         \<and> fst (recentVisitors_vercel req w) = Ok200 (take 50 (sort_newest (visitors w))))"
proof -
  have e: "effective_limit (query_limit req) = 50"
    using assms by (rule effective_limit_default)
  have l: "\<And>docs. length (limit_cursor 50 docs) \<le> 50"
    using limit_cursor_length [of 50] by simp
  show ?thesis
    using e l limit_cursor_desc [of 50 "visitors w"] limit_cursor_set [of 50 "visitors w"]
    by (auto simp: recentVisitors_def recentVisitors_vercel_def records_of_def Let_def
        connectToDatabase_def connectToDatabase_vercel_def limit_cursor_def)
qed

theorem recentVisitors_default_limit_witness:
  "parseInt (query_limit (plain_request\<lparr>query_limit := Some ''abc''\<rparr>)) = None
   \<and> reachable store_up
   \<and> fst (recentVisitors (plain_request\<lparr>query_limit := Some ''abc''\<rparr>) store_up)
       = Ok200 [visitor_at 1704078300000, visitor_at 1704073800000, visitor_at 1704071400000]
   \<and> fst (recentVisitors_vercel (plain_request\<lparr>query_limit := Some ''abc''\<rparr>) store_up)
       = Ok200 [visitor_at 1704078300000, visitor_at 1704073800000, visitor_at 1704071400000]"
proof -
  have h1: "parseInt (query_limit (plain_request\<lparr>query_limit := Some ''abc''\<rparr>)) = None"
    using parseInt_examples by (simp add: plain_request_def)
  have h2: "reachable store_up" by (simp add: store_up_def)
  have s: "take 50 (sort_newest (visitors store_up))
      = [visitor_at 1704078300000, visitor_at 1704073800000, visitor_at 1704071400000]"
    by (simp add: store_up_def three_visits_def sort_newest_def visitor_at_def)
  note t = recentVisitors_default_limit
    [of "plain_request\<lparr>query_limit := Some ''abc''\<rparr>" store_up]
  from t h1 h2 s show ?thesis by simp
qed

section \<open>Properties of the cleanup utility\<close>

lemma cleandb_main_confirmed_connects:
  "''--confirm'' \<in> set argv \<Longrightarrow> Connect \<in> set (fst (cleandb_main argv d))"
  by (simp add: cleandb_main_def cleanDatabase_def split: prod.splits)

text \<open>
  C9. Without \<^verbatim>\<open>--confirm\<close> among the command-line arguments the run prints the warning and
  does nothing else: no connection is opened, no collection is listed, counted or dropped,
  and the database is left as it was.
\<close>

theorem cleandb_main_needs_confirm:
  "''--confirm'' \<notin> set argv \<Longrightarrow>
     cleandb_main argv d = ([Print SafetyWarning], d)
     \<and> \<not> list_ex opens_or_drops (fst (cleandb_main argv d))
     \<and> snd (cleandb_main argv d) = d"
  by (simp add: cleandb_main_def opens_or_drops_def)

theorem cleandb_main_needs_confirm_witness:
  "''--confirm'' \<notin> set [''node'', ''cleandb.js'']
   \<and> cleandb_main [''node'', ''cleandb.js'']
        \<lparr>accepting = True,
         collections = [\<lparr>name = ''visitors'', docCount = 3, outcome = Drops\<rparr>]\<rparr>
      = ([Print SafetyWarning],
         \<lparr>accepting = True,
          collections = [\<lparr>name = ''visitors'', docCount = 3, outcome = Drops\<rparr>]\<rparr>)"
proof -
  have h: "''--confirm'' \<notin> set [''node'', ''cleandb.js'']" by simp
  from cleandb_main_needs_confirm [OF h] h show ?thesis by simp
qed

end
